theory Spec2Isabelle
  imports Main
begin

section \<open>Text\<close>

text \<open>
  A Python \<open>str\<close> is a sequence of Unicode code points; \<open>len\<close>, \<open>expandtabs\<close> and the
  regular expressions all count code points. The model therefore takes a text to be a list
  of code points (integers), not a list of bytes. \<open>str\<close> reads an ASCII literal.
\<close>

type_synonym pystr = "int list"

definition str :: "string \<Rightarrow> pystr" where
  "str s = map of_char s"

definition NL :: int where "NL = 10"
definition BS :: int where "BS = 92"

text \<open>\<open>cmd name\<close> is a backslash followed by \<open>name\<close>.\<close>

definition cmd :: "string \<Rightarrow> pystr" where
  "cmd name = BS # str name"

text \<open>\<open>text.replace(c, new)\<close> for a one-character \<open>c\<close>: every occurrence is replaced.\<close>

definition replace_char :: "int \<Rightarrow> pystr \<Rightarrow> pystr \<Rightarrow> pystr" where
  "replace_char c new text = concat (map (\<lambda>x. if x = c then new else [x]) text)"

text \<open>\<open>text.split('\n')\<close> and \<open>'\n'.join(lines)\<close>.\<close>

fun split_lines :: "pystr \<Rightarrow> pystr list" where
  "split_lines [] = [[]]"
| "split_lines (x # xs) =
     (if x = NL then [] # split_lines xs
      else (case split_lines xs of
              l # ls \<Rightarrow> (x # l) # ls
            | [] \<Rightarrow> [[x]]))"

fun join_lines :: "pystr list \<Rightarrow> pystr" where
  "join_lines [] = []"
| "join_lines [l] = l"
| "join_lines (l # m # ls) = l @ NL # join_lines (m # ls)"

section \<open>Regular expressions\<close>

text \<open>
  The patterns of the program use literal characters, character classes, a class repeated
  (greedy or lazy), capture groups, the anchors \<open>^\<close> and \<open>$\<close>, and one-character negative
  look-behind and look-ahead. A pattern is the list of its items in order.
\<close>

datatype cls =
    Dot               \<comment> \<open>\<open>.\<close>: any character but a newline\<close>
  | Space             \<comment> \<open>\<open>\s\<close>\<close>
  | Digit             \<comment> \<open>\<open>\d\<close>\<close>
  | OneOf "int list"  \<comment> \<open>\<open>[abc]\<close>\<close>
  | NoneOf "int list" \<comment> \<open>\<open>[^abc]\<close>\<close>

datatype item =
    Lit int           \<comment> \<open>a literal character\<close>
  | Cls cls           \<comment> \<open>one character of a class\<close>
  | Rep cls nat bool  \<comment> \<open>a class repeated at least n times; True greedy, False lazy\<close>
  | GOpen             \<comment> \<open>\<open>(\<close>\<close>
  | GClose            \<comment> \<open>\<open>)\<close>\<close>
  | Bos               \<comment> \<open>\<open>^\<close> without MULTILINE: the start of the text\<close>
  | Bol               \<comment> \<open>\<open>^\<close> under MULTILINE: the start of a line\<close>
  | Eol               \<comment> \<open>\<open>$\<close> under MULTILINE: the end of a line\<close>
  | NotBehind int     \<comment> \<open>\<open>(?<!c)\<close>\<close>
  | NotAhead int      \<comment> \<open>\<open>(?!c)\<close>\<close>

text \<open>
  The whitespace characters of \<open>\s\<close> on a \<open>str\<close> pattern, and the zero digits of the
  decimal-digit blocks of \<open>\d\<close> (each block is ten consecutive code points; Unicode 14).
\<close>

definition space_chars :: "int list" where
  "space_chars = [0x09, 0x0A, 0x0B, 0x0C, 0x0D, 0x1C, 0x1D, 0x1E, 0x1F, 0x20, 0x85, 0xA0,
     0x1680, 0x2000, 0x2001, 0x2002, 0x2003, 0x2004, 0x2005, 0x2006, 0x2007, 0x2008,
     0x2009, 0x200A, 0x2028, 0x2029, 0x202F, 0x205F, 0x3000]"

definition digit_zeros :: "int list" where
  "digit_zeros = [0x30, 0x660, 0x6F0, 0x7C0, 0x966, 0x9E6, 0xA66, 0xAE6, 0xB66, 0xBE6,
     0xC66, 0xCE6, 0xD66, 0xDE6, 0xE50, 0xED0, 0xF20, 0x1040, 0x1090, 0x17E0, 0x1810,
     0x1946, 0x19D0, 0x1A80, 0x1A90, 0x1B50, 0x1BB0, 0x1C40, 0x1C50, 0xA620, 0xA8D0,
     0xA900, 0xA9D0, 0xA9F0, 0xAA50, 0xABF0, 0xFF10, 0x104A0, 0x10D30, 0x11066, 0x110F0,
     0x11136, 0x111D0, 0x112F0, 0x11450, 0x114D0, 0x11650, 0x116C0, 0x11730, 0x118E0,
     0x11950, 0x11C50, 0x11D50, 0x11DA0, 0x16A60, 0x16AC0, 0x16B50, 0x1D7CE, 0x1D7D8,
     0x1D7E2, 0x1D7EC, 0x1D7F6, 0x1E140, 0x1E2F0, 0x1E950, 0x1FBF0]"

fun in_cls :: "cls \<Rightarrow> int \<Rightarrow> bool" where
  "in_cls Dot c = (c \<noteq> NL)"
| "in_cls Space c = List.member space_chars c"
| "in_cls Digit c = list_ex (\<lambda>z. z \<le> c \<and> c < z + 10) digit_zeros"
| "in_cls (OneOf cs) c = List.member cs c"
| "in_cls (NoneOf cs) c = (\<not> List.member cs c)"

text \<open>
  \<open>rmatch p b r os gs\<close> matches the pattern \<open>p\<close> at one position: \<open>b\<close> is the text before
  the position, reversed (the anchors and the look-behind read it), \<open>r\<close> the text from the
  position on, \<open>os\<close> the start offsets of the groups that are open, \<open>gs\<close> the groups closed
  so far. It returns the first match in backtracking order, as the text before and after
  the end of the match and the groups, or None. A greedy repetition tries one more
  character before it tries the rest of the pattern, a lazy one the other way round.
\<close>

fun rmatch :: "item list \<Rightarrow> pystr \<Rightarrow> pystr \<Rightarrow> nat list \<Rightarrow> pystr list
    \<Rightarrow> (pystr \<times> pystr \<times> pystr list) option" where
  "rmatch [] b r os gs = Some (b, r, gs)"
| "rmatch (Lit c # p) b [] os gs = None"
| "rmatch (Lit c # p) b (x # r) os gs =
     (if x = c then rmatch p (x # b) r os gs else None)"
| "rmatch (Cls k # p) b [] os gs = None"
| "rmatch (Cls k # p) b (x # r) os gs =
     (if in_cls k x then rmatch p (x # b) r os gs else None)"
| "rmatch (Rep k (Suc n) g # p) b [] os gs = None"
| "rmatch (Rep k (Suc n) g # p) b (x # r) os gs =
     (if in_cls k x then rmatch (Rep k n g # p) (x # b) r os gs else None)"
| "rmatch (Rep k 0 g # p) b [] os gs = rmatch p b [] os gs"
| "rmatch (Rep k 0 True # p) b (x # r) os gs =
     (if in_cls k x
      then (case rmatch (Rep k 0 True # p) (x # b) r os gs of
              Some m \<Rightarrow> Some m
            | None \<Rightarrow> rmatch p b (x # r) os gs)
      else rmatch p b (x # r) os gs)"
| "rmatch (Rep k 0 False # p) b (x # r) os gs =
     (case rmatch p b (x # r) os gs of
        Some m \<Rightarrow> Some m
      | None \<Rightarrow>
          (if in_cls k x then rmatch (Rep k 0 False # p) (x # b) r os gs else None))"
| "rmatch (GOpen # p) b r os gs = rmatch p b r (length b # os) gs"
| "rmatch (GClose # p) b r [] gs = None"
| "rmatch (GClose # p) b r (s # os) gs =
     rmatch p b r os (gs @ [rev (take (length b - s) b)])"
| "rmatch (Bos # p) b r os gs = (if b = [] then rmatch p b r os gs else None)"
| "rmatch (Bol # p) b r os gs =
     (case b of
        [] \<Rightarrow> rmatch p b r os gs
      | y # _ \<Rightarrow> if y = NL then rmatch p b r os gs else None)"
| "rmatch (Eol # p) b r os gs =
     (case r of
        [] \<Rightarrow> rmatch p b r os gs
      | y # _ \<Rightarrow> if y = NL then rmatch p b r os gs else None)"
| "rmatch (NotBehind c # p) b r os gs =
     (case b of
        [] \<Rightarrow> rmatch p b r os gs
      | y # _ \<Rightarrow> if y = c then None else rmatch p b r os gs)"
| "rmatch (NotAhead c # p) b r os gs =
     (case r of
        [] \<Rightarrow> rmatch p b r os gs
      | y # _ \<Rightarrow> if y = c then None else rmatch p b r os gs)"

text \<open>\<open>m.group(n)\<close> for n from 1, and the matched text \<open>m.group(0)\<close>.\<close>

definition group :: "pystr list \<Rightarrow> nat \<Rightarrow> pystr" where
  "group gs n = (case drop (n - 1) gs of g # _ \<Rightarrow> g | [] \<Rightarrow> [])"

definition matched :: "pystr \<Rightarrow> pystr \<Rightarrow> pystr" where
  "matched b b' = rev (take (length b' - length b) b')"

text \<open>
  \<open>re.match(p, line)\<close>: a match at the start of the text, as its groups.
\<close>

definition re_match :: "item list \<Rightarrow> pystr \<Rightarrow> pystr list option" where
  "re_match p line = map_option (\<lambda>(b, r, gs). gs) (rmatch p [] line [] [])"

text \<open>
  \<open>re.sub(p, repl, text)\<close>: scan from the left; where the pattern matches, write the
  replacement (computed from the matched text and the groups) and go on after the match;
  elsewhere copy the character. Every pattern of the program consumes at least one
  character, so a match is never empty and none is tried at the end of the text; the
  guard on the length makes the scan total for any pattern.
\<close>

fun re_sub_from :: "item list \<Rightarrow> (pystr \<Rightarrow> pystr list \<Rightarrow> pystr) \<Rightarrow> pystr \<Rightarrow> pystr \<Rightarrow> pystr" where
  "re_sub_from p repl b [] = []"
| "re_sub_from p repl b (x # r) =
     (case rmatch p b (x # r) [] [] of
        None \<Rightarrow> x # re_sub_from p repl (x # b) r
      | Some (b', r', gs) \<Rightarrow>
          if length r' \<le> length r
          then repl (matched b b') gs @ re_sub_from p repl b' r'
          else x # re_sub_from p repl (x # b) r)"

definition re_sub :: "item list \<Rightarrow> (pystr \<Rightarrow> pystr list \<Rightarrow> pystr) \<Rightarrow> pystr \<Rightarrow> pystr" where
  "re_sub p repl text = re_sub_from p repl [] text"

text \<open>A replacement template \<open>pre\1post\<close>.\<close>

definition around1 :: "pystr \<Rightarrow> pystr \<Rightarrow> pystr \<Rightarrow> pystr list \<Rightarrow> pystr" where
  "around1 pre post m gs = pre @ group gs 1 @ post"

definition lits :: "string \<Rightarrow> item list" where
  "lits s = map (\<lambda>c. Lit (of_char c)) s"

section \<open>The converter\<close>

text \<open>
  \<open>MarkdownToLatexConverter\<close>: its only field is the symbol table, a dict from one
  character to a command, kept here as the list of its items in insertion order (the
  order in which \<open>unicode_map.items()\<close> yields them).
\<close>

record converter =
  unicode_map :: "(int \<times> pystr) list"

definition init_converter :: converter where
  "init_converter = \<lparr>unicode_map = [
     (0x2115, cmd ''mathbb{N}''), (0x2124, cmd ''mathbb{Z}''), (0x211A, cmd ''mathbb{Q}''),
     (0x211D, cmd ''mathbb{R}''), (0x2102, cmd ''mathbb{C}''), (0x2205, cmd ''emptyset''),
     (0x2208, cmd ''in''), (0x2209, cmd ''notin''), (0x2286, cmd ''subseteq''),
     (0x2282, cmd ''subset''), (0x2287, cmd ''supseteq''), (0x2283, cmd ''supset''),
     (0x222A, cmd ''cup''), (0x2229, cmd ''cap''), (0x2216, cmd ''setminus''),
     (0x25B3, cmd ''triangle''), (0x00D7, cmd ''times''), (0x2227, cmd ''land''),
     (0x2228, cmd ''lor''), (0x00AC, cmd ''neg''), (0x2192, cmd ''rightarrow''),
     (0x2194, cmd ''leftrightarrow''), (0x2200, cmd ''forall''), (0x2203, cmd ''exists''),
     (0x2204, cmd ''nexists''), (0x2264, cmd ''leq''), (0x2265, cmd ''geq''),
     (0x2260, cmd ''neq''), (0x2261, cmd ''equiv''), (0x2248, cmd ''approx''),
     (0x221E, cmd ''infty''), (0x2211, cmd ''sum''), (0x220F, cmd ''prod''),
     (0x222B, cmd ''int''), (0x2202, cmd ''partial''), (0x2207, cmd ''nabla''),
     (0x03B1, cmd ''alpha''), (0x03B2, cmd ''beta''), (0x03B3, cmd ''gamma''),
     (0x03B4, cmd ''delta''), (0x03B5, cmd ''epsilon''), (0x03B6, cmd ''zeta''),
     (0x03B7, cmd ''eta''), (0x03B8, cmd ''theta''), (0x03B9, cmd ''iota''),
     (0x03BA, cmd ''kappa''), (0x03BB, cmd ''lambda''), (0x03BC, cmd ''mu''),
     (0x03BD, cmd ''nu''), (0x03BE, cmd ''xi''), (0x03C0, cmd ''pi''),
     (0x03C1, cmd ''rho''), (0x03C3, cmd ''sigma''), (0x03C4, cmd ''tau''),
     (0x03C5, cmd ''upsilon''), (0x03C6, cmd ''phi''), (0x03C7, cmd ''chi''),
     (0x03C8, cmd ''psi''), (0x03C9, cmd ''omega''), (0x0391, cmd ''Alpha''),
     (0x0392, cmd ''Beta''), (0x0393, cmd ''Gamma''), (0x0394, cmd ''Delta''),
     (0x0395, cmd ''Epsilon''), (0x0396, cmd ''Zeta''), (0x0397, cmd ''Eta''),
     (0x0398, cmd ''Theta''), (0x0399, cmd ''Iota''), (0x039A, cmd ''Kappa''),
     (0x039B, cmd ''Lambda''), (0x039C, cmd ''Mu''), (0x039D, cmd ''Nu''),
     (0x039E, cmd ''Xi''), (0x03A0, cmd ''Pi''), (0x03A1, cmd ''Rho''),
     (0x03A3, cmd ''Sigma''), (0x03A4, cmd ''Tau''), (0x03A5, cmd ''Upsilon''),
     (0x03A6, cmd ''Phi''), (0x03A7, cmd ''Chi''), (0x03A8, cmd ''Psi''),
     (0x03A9, cmd ''Omega'')]\<rparr>"

subsection \<open>Symbols\<close>

definition convert_unicode_chars :: "converter \<Rightarrow> pystr \<Rightarrow> pystr" where
  "convert_unicode_chars self text =
     fold (\<lambda>(unicode_char, latex_cmd) t.
             replace_char unicode_char (str ''$'' @ latex_cmd @ str ''$'') t)
          (unicode_map self) text"

subsection \<open>Headings\<close>

definition heading_re :: "nat \<Rightarrow> item list" where
  "heading_re k = [Bol] @ replicate k (Lit 35) @ [Lit 32, GOpen, Rep Dot 1 True, GClose, Eol]"

definition convert_headings :: "pystr \<Rightarrow> pystr" where
  "convert_headings text =
     (let text = re_sub (heading_re 1) (around1 (cmd ''section{'') (str ''}'')) text;
          text = re_sub (heading_re 2) (around1 (cmd ''subsection{'') (str ''}'')) text;
          text = re_sub (heading_re 3) (around1 (cmd ''subsubsection{'') (str ''}'')) text;
          text = re_sub (heading_re 4) (around1 (cmd ''paragraph{'') (str ''}'')) text;
          text = re_sub (heading_re 5) (around1 (cmd ''subparagraph{'') (str ''}'')) text
      in text)"

subsection \<open>Emphasis\<close>

definition span_re :: "string \<Rightarrow> string \<Rightarrow> item list" where
  "span_re l r = lits l @ [GOpen, Rep Dot 1 False, GClose] @ lits r"

definition italic_re :: "int \<Rightarrow> item list" where
  "italic_re c = [NotBehind c, Lit c, GOpen, Rep (NoneOf [c]) 1 False, GClose, Lit c, NotAhead c]"

definition convert_formatting :: "pystr \<Rightarrow> pystr" where
  "convert_formatting text =
     (let text = re_sub (span_re ''**'' ''**'') (around1 (cmd ''textbf{'') (str ''}'')) text;
          text = re_sub (span_re ''__'' ''__'') (around1 (cmd ''textbf{'') (str ''}'')) text;
          text = re_sub (italic_re 42) (around1 (cmd ''textit{'') (str ''}'')) text;
          text = re_sub (italic_re 95) (around1 (cmd ''textit{'') (str ''}'')) text;
          text = re_sub (span_re ''<u>'' ''</u>'') (around1 (cmd ''underline{'') (str ''}'')) text;
          text = re_sub (span_re ''^'' ''^'') (around1 (cmd ''textsuperscript{'') (str ''}'')) text;
          text = re_sub (span_re ''~'' ''~'') (around1 (cmd ''textsubscript{'') (str ''}'')) text
      in text)"

subsection \<open>Lists\<close>

definition bullet_re :: "item list" where
  "bullet_re = [Bos, GOpen, Rep Space 0 True, GClose, Cls (OneOf (str ''*+-'')), Lit 32,
                GOpen, Rep Dot 1 True, GClose]"

definition numbered_re :: "item list" where
  "numbered_re = [Bos, GOpen, Rep Space 0 True, GClose, Rep Digit 1 True, Lit 46, Lit 32,
                  GOpen, Rep Dot 1 True, GClose]"

definition begin_itemize :: pystr where "begin_itemize = cmd ''begin{itemize}''"
definition end_itemize :: pystr where "end_itemize = cmd ''end{itemize}''"
definition begin_enumerate :: pystr where "begin_enumerate = cmd ''begin{enumerate}''"
definition end_enumerate :: pystr where "end_enumerate = cmd ''end{enumerate}''"

text \<open>The line \<open>'  ' * indent_level + f'\item {item_text}'\<close> of a match.\<close>

definition item_line :: "pystr list \<Rightarrow> pystr" where
  "item_line gs =
     (let indent_level = length (group gs 1) div 2;
          item_text = group gs 2
      in concat (replicate indent_level (str ''  '')) @ cmd ''item '' @ item_text)"

text \<open>The local variables of the loop of \<open>convert_lists\<close>.\<close>

record list_state =
  result :: "pystr list"
  in_itemize :: bool
  in_enumerate :: bool

definition list_step :: "list_state \<Rightarrow> pystr \<Rightarrow> list_state" where
  "list_step s line =
     (case re_match bullet_re line of
        Some gs \<Rightarrow>
          (let s = (if \<not> in_itemize s
                    then s\<lparr>result := result s @ [begin_itemize], in_itemize := True\<rparr>
                    else s);
               s = (if in_enumerate s
                    then s\<lparr>result := result s @ [end_enumerate], in_enumerate := False\<rparr>
                    else s)
           in s\<lparr>result := result s @ [item_line gs]\<rparr>)
      | None \<Rightarrow>
          (case re_match numbered_re line of
             Some gs \<Rightarrow>
               (let s = (if \<not> in_enumerate s
                         then s\<lparr>result := result s @ [begin_enumerate], in_enumerate := True\<rparr>
                         else s);
                    s = (if in_itemize s
                         then s\<lparr>result := result s @ [end_itemize], in_itemize := False\<rparr>
                         else s)
                in s\<lparr>result := result s @ [item_line gs]\<rparr>)
           | None \<Rightarrow>
               (let s = (if in_itemize s
                         then s\<lparr>result := result s @ [end_itemize], in_itemize := False\<rparr>
                         else s);
                    s = (if in_enumerate s
                         then s\<lparr>result := result s @ [end_enumerate], in_enumerate := False\<rparr>
                         else s)
                in s\<lparr>result := result s @ [line]\<rparr>)))"

definition list_finish :: "list_state \<Rightarrow> pystr list" where
  "list_finish s =
     (let r = (if in_itemize s then result s @ [end_itemize] else result s);
          r = (if in_enumerate s then r @ [end_enumerate] else r)
      in r)"

definition convert_lists_lines :: "pystr list \<Rightarrow> pystr list" where
  "convert_lists_lines lines =
     list_finish (foldl list_step \<lparr>result = [], in_itemize = False, in_enumerate = False\<rparr> lines)"

definition convert_lists :: "pystr \<Rightarrow> pystr" where
  "convert_lists text = join_lines (convert_lists_lines (split_lines text))"

subsection \<open>Whitespace\<close>

text \<open>
  \<open>text.expandtabs(tabsize)\<close>: a tab becomes the spaces up to the next multiple of
  \<open>tabsize\<close>; the column counts code points and starts again after \<open>\n\<close> and \<open>\r\<close>.
\<close>

definition TAB :: int where "TAB = 9"
definition CR :: int where "CR = 13"

fun expandtabs_from :: "nat \<Rightarrow> nat \<Rightarrow> pystr \<Rightarrow> pystr" where
  "expandtabs_from tabsize line_pos [] = []"
| "expandtabs_from tabsize line_pos (ch # cs) =
     (if ch = TAB
      then (if 0 < tabsize
            then replicate (tabsize - line_pos mod tabsize) 32
                 @ expandtabs_from tabsize (line_pos + (tabsize - line_pos mod tabsize)) cs
            else expandtabs_from tabsize line_pos cs)
      else ch # expandtabs_from tabsize (if ch = NL \<or> ch = CR then 0 else line_pos + 1) cs)"

definition expandtabs :: "nat \<Rightarrow> pystr \<Rightarrow> pystr" where
  "expandtabs tabsize text = expandtabs_from tabsize 0 text"

text \<open>
  The size of the space command is \<open>str(len(m.group(0)) * 0.3)\<close>: the length becomes a
  double, is multiplied by the double nearest to 0.3, and the product is printed with the
  fewest digits that read back as the same double. A positive double is kept as its
  53-bit significand and its binary exponent; exponents are not bounded, since no text is
  long enough for the product to overflow.
\<close>

function bitlen :: "int \<Rightarrow> nat" where
  "bitlen n = (if n \<le> 0 then 0 else Suc (bitlen (n div 2)))"
  by pat_completeness auto
termination by (relation "measure nat") auto

declare bitlen.simps [simp del]

function declen :: "int \<Rightarrow> nat" where
  "declen n = (if n \<le> 0 then 0 else Suc (declen (n div 10)))"
  by pat_completeness auto
termination by (relation "measure nat") auto

declare declen.simps [simp del]

function digits_of :: "int \<Rightarrow> pystr" where
  "digits_of n = (if n < 10 then [48 + n] else digits_of (n div 10) @ [48 + n mod 10])"
  by pat_completeness auto
termination by (relation "measure nat") auto

declare digits_of.simps [simp del]

type_synonym dbl = "int \<times> int"

text \<open>The double nearest to \<open>num / den * 2 ^ e\<close>, ties to the even significand.\<close>

definition round_dbl :: "int \<Rightarrow> int \<Rightarrow> int \<Rightarrow> dbl" where
  "round_dbl num den e =
     (let t = (55 + bitlen den) - bitlen num;
          Q = (num * 2 ^ t) div den;
          rem = (num * 2 ^ t) mod den;
          s = bitlen Q - 53;
          q = Q div 2 ^ s;
          r = Q mod 2 ^ s;
          h = 2 ^ (s - 1);
          q' = (if h < r \<or> (r = h \<and> (0 < rem \<or> odd q)) then q + 1 else q)
      in if q' = 2 ^ 53 then (2 ^ 52, e - int t + int s + 1) else (q', e - int t + int s))"

definition float_of_nat :: "nat \<Rightarrow> dbl" where
  "float_of_nat n = round_dbl (int n) 1 0"

definition float_mul :: "dbl \<Rightarrow> dbl \<Rightarrow> dbl" where
  "float_mul x y = round_dbl (fst x * fst y) 1 (snd x + snd y)"

text \<open>The literal \<open>0.3\<close>: \<open>0x13333333333333 * 2 ^ -54\<close>.\<close>

definition point_three :: dbl where
  "point_three = (5404319552844595, -54)"

text \<open>The exact value of a double as a fraction.\<close>

definition dbl_num :: "dbl \<Rightarrow> int" where
  "dbl_num d = (if 0 \<le> snd d then fst d * 2 ^ nat (snd d) else fst d)"

definition dbl_den :: "dbl \<Rightarrow> int" where
  "dbl_den d = (if 0 \<le> snd d then 1 else 2 ^ nat (- snd d))"

text \<open>The decimal \<open>D * 10 ^ x\<close> read back as a double.\<close>

definition dec_to_dbl :: "int \<Rightarrow> int \<Rightarrow> dbl" where
  "dec_to_dbl D x =
     (if 0 \<le> x then round_dbl (D * 10 ^ nat x) 1 0 else round_dbl D (10 ^ nat (- x)) 0)"

text \<open>
  For a double with \<open>p\<close> digits before the decimal point: \<open>nearest d p k\<close> is its value
  rounded to \<open>k\<close> significant digits, and \<open>cand d p k\<close> the \<open>k\<close>-digit decimal next
  below or next above it that reads back as \<open>d\<close> (the nearer one, if both do).
  \<open>shortest\<close> takes the first \<open>k\<close> that has one; 17 digits always do.
\<close>

definition nearest :: "dbl \<Rightarrow> nat \<Rightarrow> nat \<Rightarrow> int \<times> int" where
  "nearest d p k =
     (let sc_n = dbl_num d * (if p \<le> k then 10 ^ (k - p) else 1);
          sc_d = dbl_den d * (if p \<le> k then 1 else 10 ^ (p - k));
          lo = sc_n div sc_d;
          rm = sc_n mod sc_d
      in if sc_d < 2 * rm \<or> (2 * rm = sc_d \<and> odd lo) then (lo + 1, int p - int k)
         else (lo, int p - int k))"

definition cand :: "dbl \<Rightarrow> nat \<Rightarrow> nat \<Rightarrow> (int \<times> int) option" where
  "cand d p k =
     (let sc_n = dbl_num d * (if p \<le> k then 10 ^ (k - p) else 1);
          sc_d = dbl_den d * (if p \<le> k then 1 else 10 ^ (p - k));
          lo = sc_n div sc_d;
          x = int p - int k;
          lo_ok = (dec_to_dbl lo x = d);
          hi_ok = (dec_to_dbl (lo + 1) x = d)
      in if lo_ok \<and> hi_ok then Some (nearest d p k)
         else if lo_ok then Some (lo, x)
         else if hi_ok then Some (lo + 1, x)
         else None)"

fun search :: "dbl \<Rightarrow> nat \<Rightarrow> nat \<Rightarrow> nat \<Rightarrow> int \<times> int" where
  "search d p k 0 = nearest d p k"
| "search d p k (Suc f) =
     (case cand d p k of Some r \<Rightarrow> r | None \<Rightarrow> search d p (k + 1) f)"

definition shortest :: "dbl \<Rightarrow> nat \<Rightarrow> int \<times> int" where
  "shortest d p = search d p 1 16"

function strip_zeros :: "int \<times> int \<Rightarrow> int \<times> int" where
  "strip_zeros (D, x) =
     (if 0 < D \<and> D mod 10 = 0 then strip_zeros (D div 10, x + 1) else (D, x))"
  by pat_completeness auto
termination by (relation "measure (\<lambda>(D, x). nat D)") auto

declare strip_zeros.simps [simp del]

text \<open>
  \<open>str\<close> of a double that is zero or at least 0.1: plain notation up to 16 digits before
  the point, the exponent notation beyond.
\<close>

definition float_str :: "dbl \<Rightarrow> pystr" where
  "float_str d =
     (if fst d = 0 then str ''0.0'' else
      let p = declen (dbl_num d div dbl_den d);
          (D, x) = strip_zeros (shortest d p);
          ds = digits_of D;
          decpt = int (length ds) + x
      in if 16 < decpt
         then take 1 ds @ (if 1 < length ds then 46 # drop 1 ds else []) @ str ''e+''
              @ digits_of (decpt - 1)
         else if decpt \<le> 0 then str ''0.'' @ replicate (nat (- decpt)) 48 @ ds
         else if int (length ds) \<le> decpt
         then ds @ replicate (nat decpt - length ds) 48 @ str ''.0''
         else take (nat decpt) ds @ 46 # drop (nat decpt) ds)"

definition hspace :: "pystr \<Rightarrow> pystr list \<Rightarrow> pystr" where
  "hspace m gs =
     cmd ''hspace{'' @ float_str (float_mul (float_of_nat (length m)) point_three) @ str ''em}''"

definition spaces_re :: "item list" where
  "spaces_re = [Rep (OneOf [32]) 2 True]"

definition preserve_whitespace :: "pystr \<Rightarrow> pystr" where
  "preserve_whitespace text =
     (let text = expandtabs 4 text;
          text = re_sub spaces_re hspace text
      in text)"

subsection \<open>Blank lines\<close>

definition blank_re :: "item list" where
  "blank_re = [Lit NL, Rep Space 0 True, Lit NL, Rep Space 0 True, Rep (OneOf [NL]) 1 True]"

definition vspace :: pystr where
  "vspace = [NL, NL] @ cmd ''vspace{'' @ cmd ''baselineskip}'' @ [NL, NL]"

definition handle_blank_lines :: "pystr \<Rightarrow> pystr" where
  "handle_blank_lines text = re_sub blank_re (\<lambda>m gs. vspace) text"

subsection \<open>Escaping\<close>

definition escape_chars :: "(int \<times> pystr) list" where
  "escape_chars = [
     (38, cmd ''&''),
     (37, cmd ''%''),
     (36, cmd ''$''),
     (35, cmd ''#''),
     (94, cmd ''textasciicircum{}''),
     (95, cmd ''_''),
     (123, cmd ''{''),
     (125, cmd ''}''),
     (126, cmd ''textasciitilde{}''),
     (BS, cmd ''textbackslash{}'')]"

definition escape_latex_chars :: "pystr \<Rightarrow> pystr" where
  "escape_latex_chars text =
     fold (\<lambda>(char, escaped) t.
             if List.member (str ''$^_~'') char then t else replace_char char escaped t)
          escape_chars text"

subsection \<open>The document wrapper\<close>

definition preamble :: pystr where
  "preamble =
     cmd ''documentclass{article}'' @ [NL] @
     cmd ''usepackage[utf8]{inputenc}'' @ [NL] @
     cmd ''usepackage{amsmath}'' @ [NL] @
     cmd ''usepackage{amsfonts}'' @ [NL] @
     cmd ''usepackage{amssymb}'' @ [NL] @
     cmd ''usepackage[normalem]{ulem}'' @ [NL] @
     [NL] @
     cmd ''begin{document}'' @ [NL] @
     [NL]"

definition postamble :: pystr where
  "postamble = [NL] @ cmd ''end{document}''"

definition add_latex_preamble :: "pystr \<Rightarrow> pystr" where
  "add_latex_preamble content = preamble @ content @ postamble"

subsection \<open>The pipeline\<close>

definition convert :: "converter \<Rightarrow> pystr \<Rightarrow> bool \<Rightarrow> pystr" where
  "convert self markdown_text add_document_structure =
     (let text = markdown_text;
          text = convert_unicode_chars self text;
          text = convert_headings text;
          text = convert_formatting text;
          text = convert_lists text;
          text = preserve_whitespace text;
          text = handle_blank_lines text;
          text = escape_latex_chars text;
          text = (if add_document_structure then add_latex_preamble text else text)
      in text)"

section \<open>Files and the command line\<close>

text \<open>
  The file system maps the text of a path to the decoded content of the readable file
  there; \<open>open\<close> for reading raises \<open>FileNotFoundError\<close> on a path that is not in the
  map, and translates \<open>\r\n\<close> and \<open>\r\<close> to \<open>\n\<close> (text mode). \<open>writable\<close> tells whether a
  path can be opened for writing; where it cannot (its directory is missing, or does not
  allow it), \<open>open\<close> raises an \<open>OSError\<close>. Writing is as on a POSIX system: \<open>\n\<close> is written
  as it is. A call with too many arguments raises \<open>TypeError\<close>. Standard output is the list
  of the texts printed.
\<close>

datatype py_error = FileNotFoundError | OSError | ValueError | TypeError

record world =
  files :: "pystr \<rightharpoonup> pystr"
  writable :: "pystr \<Rightarrow> bool"
  stdout :: "pystr list"
  stderr :: "py_error list"

text \<open>
  \<open>pathlib\<close> belongs to the library and is a parameter: \<open>path_str p\<close> is \<open>str(Path(p))\<close>,
  the normalised text under which the file system knows the path, and \<open>with_suffix_tex p\<close>
  is \<open>str(Path(p).with_suffix('.tex'))\<close>, or None where \<open>with_suffix\<close> raises \<open>ValueError\<close>
  (a path with an empty name).
\<close>

record pathlib =
  path_str :: "pystr \<Rightarrow> pystr"
  with_suffix_tex :: "pystr \<Rightarrow> pystr option"

fun universal_newlines :: "pystr \<Rightarrow> pystr" where
  "universal_newlines [] = []"
| "universal_newlines [c] = (if c = CR then [NL] else [c])"
| "universal_newlines (c # d # cs) =
     (if c = CR
      then (if d = NL then NL # universal_newlines cs else NL # universal_newlines (d # cs))
      else c # universal_newlines (d # cs))"

definition read_file :: "world \<Rightarrow> pystr \<Rightarrow> py_error + pystr" where
  "read_file w path =
     (case files w path of
        None \<Rightarrow> Inl FileNotFoundError
      | Some c \<Rightarrow> Inr (universal_newlines c))"

definition write_file :: "world \<Rightarrow> pystr \<Rightarrow> pystr \<Rightarrow> py_error + world" where
  "write_file w path content =
     (if writable w path then Inr (w\<lparr>files := (files w)(path \<mapsto> content)\<rparr>)
      else Inl OSError)"

definition print :: "world \<Rightarrow> pystr \<Rightarrow> world" where
  "print w line = w\<lparr>stdout := stdout w @ [line]\<rparr>"

definition convert_file :: "pathlib \<Rightarrow> converter \<Rightarrow> pystr \<Rightarrow> pystr option \<Rightarrow> world
    \<Rightarrow> py_error + (pystr \<times> world)" where
  "convert_file lib self input_path output_path w =
     (let input_path = path_str lib input_path
      in if files w input_path = None then Inl FileNotFoundError
         else
           case (case output_path of
                   None \<Rightarrow> with_suffix_tex lib input_path
                 | Some p \<Rightarrow> Some (path_str lib p)) of
             None \<Rightarrow> Inl ValueError
           | Some output_path \<Rightarrow>
               (case read_file w input_path of
                  Inl e \<Rightarrow> Inl e
                | Inr markdown_content \<Rightarrow>
                    let latex_content = convert self markdown_content True
                    in (case write_file w output_path latex_content of
                          Inl e \<Rightarrow> Inl e
                        | Inr w \<Rightarrow>
                            Inr (output_path,
                                 print w (str ''Converted '' @ input_path @ str '' to ''
                                          @ output_path)))))"

text \<open>
  A call \<open>converter.convert_file(a1, ..., an)\<close> with positional arguments: the method
  takes \<open>input_path\<close> and an optional \<open>output_path\<close>, and any other number of arguments
  raises \<open>TypeError\<close> before the body runs.
\<close>

definition call_convert_file :: "pathlib \<Rightarrow> converter \<Rightarrow> pystr option list \<Rightarrow> world
    \<Rightarrow> py_error + (pystr \<times> world)" where
  "call_convert_file lib self argv w =
     (case argv of
        [Some input_path] \<Rightarrow> convert_file lib self input_path None w
      | [Some input_path, output_path] \<Rightarrow> convert_file lib self input_path output_path w
      | _ \<Rightarrow> Inl TypeError)"

text \<open>The parsed command line (\<open>output_pos\<close> is the positional \<open>args.output\<close>).\<close>

record args =
  input :: pystr
  output_pos :: "pystr option"
  output_file :: "pystr option"
  template :: "pystr option"
  no_document :: bool

text \<open>\<open>a or b\<close> on values that are None or a text: None and the empty text are false.\<close>

definition py_or :: "pystr option \<Rightarrow> pystr option \<Rightarrow> pystr option" where
  "py_or a b = (case a of None \<Rightarrow> b | Some s \<Rightarrow> if s = [] then b else a)"

text \<open>
  \<open>main\<close>, as the exit code and the world it leaves: 0 when it returns, 1 when the
  \<open>except\<close> clause has printed the error.
\<close>

definition main :: "pathlib \<Rightarrow> args \<Rightarrow> world \<Rightarrow> nat \<times> world" where
  "main lib a w =
     (let output_file' = py_or (output_pos a) (output_file a);
          converter = init_converter;
          r = (if no_document a
               then (case read_file w (path_str lib (input a)) of
                       Inl e \<Rightarrow> Inl e
                     | Inr markdown_content \<Rightarrow>
                         let latex_content = convert converter markdown_content False
                         in (case py_or output_file' None of
                               Some p \<Rightarrow>
                                 (case write_file w (path_str lib p) latex_content of
                                    Inl e \<Rightarrow> Inl e
                                  | Inr w \<Rightarrow>
                                      Inr (print w (str ''Converted '' @ input a @ str '' to ''
                                                    @ p)))
                             | None \<Rightarrow> Inr (print w latex_content)))
               else (case call_convert_file lib converter
                            [Some (input a), output_file', template a] w of
                       Inl e \<Rightarrow> Inl e
                     | Inr (p, w') \<Rightarrow> Inr w'))
      in case r of
           Inl e \<Rightarrow> (1, w\<lparr>stderr := stderr w @ [e]\<rparr>)
         | Inr w' \<Rightarrow> (0, w'))"

section \<open>The whitespace pass, as the specification words it\<close>

text \<open>
  \<open>tab_expanded col text out\<close>: \<open>out\<close> is \<open>text\<close> with every tab replaced by one to four
  spaces that end at a column divisible by 4, where \<open>col\<close> is the column of the first
  character and a newline or a carriage return starts a line.
\<close>

inductive tab_expanded :: "nat \<Rightarrow> pystr \<Rightarrow> pystr \<Rightarrow> bool" where
  tab_nil: "tab_expanded col [] []"
| tab_char: "c \<noteq> TAB \<Longrightarrow> c \<noteq> NL \<Longrightarrow> c \<noteq> CR \<Longrightarrow> tab_expanded (Suc col) cs out
    \<Longrightarrow> tab_expanded col (c # cs) (c # out)"
| tab_line: "c = NL \<or> c = CR \<Longrightarrow> tab_expanded 0 cs out \<Longrightarrow> tab_expanded col (c # cs) (c # out)"
| tab_tab: "0 < k \<Longrightarrow> k \<le> 4 \<Longrightarrow> 4 dvd col + k \<Longrightarrow> tab_expanded (col + k) cs out
    \<Longrightarrow> tab_expanded col (TAB # cs) (replicate k 32 @ out)"

text \<open>
  \<open>collapse_spaces text\<close>: every maximal run of two or more spaces of \<open>text\<close> is replaced
  by the space command for the length of the run; everything else stays.
\<close>

function collapse_spaces :: "pystr \<Rightarrow> pystr" where
  "collapse_spaces [] = []"
| "collapse_spaces (x # xs) =
     (if x = 32
      then (if 2 \<le> length (takeWhile (\<lambda>c. c = 32) (x # xs))
            then hspace (takeWhile (\<lambda>c. c = 32) (x # xs)) []
            else [x])
           @ collapse_spaces (dropWhile (\<lambda>c. c = 32) xs)
      else x # collapse_spaces xs)"
  by pat_completeness auto
termination
  by (relation "measure length") (auto simp: length_dropWhile_le less_Suc_eq_le)

text \<open>
  Modelled from the spec: the size "0.3 size-units multiplied by the run length" as the
  decimal of three tenths of the length (0.6, 0.9, 1.2, ...).
\<close>

definition tenths_size :: "nat \<Rightarrow> pystr" where
  "tenths_size n = digits_of (int (3 * n) div 10) @ [46] @ digits_of (int (3 * n) mod 10)"


section \<open>The command line without \<open>--no-document\<close>\<close>

text \<open>
  C1. The claim is that the program, run without \<open>--no-document\<close> on an existing input
  file, writes the converted text and exits with code 0. In the code, \<open>main\<close> passes
  three arguments (input, output, template) to \<open>convert_file\<close>, which takes at most two:
  whatever the arguments and the files are, the call raises \<open>TypeError\<close>, the program
  exits with code 1, and no file is written.
\<close>

theorem main_without_no_document_fails:
  "main lib (a\<lparr>no_document := False\<rparr>) w = (1, w\<lparr>stderr := stderr w @ [TypeError]\<rparr>)"
  by (simp add: main_def call_convert_file_def Let_def)

section \<open>The document wrapper\<close>

text \<open>
  C10. With the wrapper flag set, \<open>convert\<close> returns the fixed preamble, then the result
  of the conversion with the flag unset on the same text, then the fixed postamble.
\<close>

theorem convert_wrapper:
  "convert self markdown_text True = preamble @ convert self markdown_text False @ postamble"
  by (simp add: convert_def add_latex_preamble_def Let_def)

section \<open>Escaping after the other passes\<close>

text \<open>
  C2. The claim is that the escaping pass leaves the commands written by the earlier
  passes intact. The pass replaces every \<open>{\<close>, \<open>}\<close> and backslash of its input, those of
  the commands included: the bold command of \<open>**a**\<close> and the section command of a
  heading both reach it whole and leave it with each backslash and brace escaped.
\<close>

theorem escape_breaks_emitted_commands:
  "convert_formatting (str ''**a**'') = cmd ''textbf{a}''
   \<and> escape_latex_chars (cmd ''textbf{a}'')
       = cmd ''textbackslash{}textbf'' @ cmd ''textbackslash{}{a'' @ cmd ''textbackslash{}}''
   \<and> convert init_converter (str ''**a**'') False
       = cmd ''textbackslash{}textbf'' @ cmd ''textbackslash{}{a'' @ cmd ''textbackslash{}}''
   \<and> convert init_converter (str ''# T'') False
       = cmd ''textbackslash{}section'' @ cmd ''textbackslash{}{T'' @ cmd ''textbackslash{}}''"
  by code_simp

section \<open>Symbols\<close>

text \<open>
  C3. The claim is that the conversion of a text holding one symbol of the table is the
  symbol's command between dollar signs. The symbol pass does produce it (for the
  natural-numbers sign, \<open>$\mathbb{N}$\<close>), and the escaping pass then rewrites the
  backslash and the braces of the command.
\<close>

theorem convert_symbol_escaped:
  "convert_unicode_chars init_converter [0x2115] = str ''$'' @ cmd ''mathbb{N}$''
   \<and> convert init_converter [0x2115] False
       = str ''$'' @ cmd ''textbackslash{}mathbb'' @ cmd ''textbackslash{}{N''
         @ cmd ''textbackslash{}}$''"
  by code_simp

section \<open>Headings\<close>

text \<open>
  C7. The claim is that the conversion of a heading line is the section command of the
  matching depth. The heading pass produces it (\<open>\subsection{Intro}\<close> for two hashes),
  and the escaping pass then rewrites its backslash and braces.
\<close>

theorem convert_heading_escaped:
  "convert_headings (str ''## Intro'') = cmd ''subsection{Intro}''
   \<and> convert init_converter (str ''## Intro'') False
       = cmd ''textbackslash{}subsection'' @ cmd ''textbackslash{}{Intro''
         @ cmd ''textbackslash{}}''"
  by code_simp

section \<open>Lists\<close>

text \<open>
  C4. The claim is that a list line met while the block of the other kind is open closes
  that block before it opens its own. The code opens the new block first: for a bullet
  line followed by a numbered line, \<open>\begin{enumerate}\<close> comes before \<open>\end{itemize}\<close>,
  and the other way round for a numbered line followed by a bullet line.
\<close>

theorem convert_lists_opens_before_closing:
  "convert_lists (str ''- a\<newline>1. b'')
     = join_lines [begin_itemize, cmd ''item a'', begin_enumerate, end_itemize,
                   cmd ''item b'', end_enumerate]
   \<and> convert_lists (str ''1. a\<newline>- b'')
     = join_lines [begin_enumerate, cmd ''item a'', begin_itemize, end_enumerate,
                   cmd ''item b'', end_itemize]"
  by code_simp

section \<open>Emphasis\<close>

text \<open>
  A match of the italic pattern at a position: the lazy repetition stops at the first
  delimiter that is not followed by another one.
\<close>

lemma lazy_until:
  "rmatch [Rep (NoneOf [c]) 0 False, GClose, Lit c, NotAhead c] b1 r1 [s] [] = Some (b', r', gs) \<Longrightarrow>
   \<exists>x. c \<notin> set x \<and> r1 = x @ c # r' \<and> b' = c # rev x @ b1
       \<and> gs = [rev (take (length (rev x @ b1) - s) (rev x @ b1))] \<and> take 1 r' \<noteq> [c]"
proof (induction r1 arbitrary: b1)
  case Nil
  then show ?case by simp
next
  case (Cons y r)
  show ?case
  proof (cases "y = c")
    case True
    with Cons.prems have "r' = r \<and> b' = c # b1 \<and> gs = [rev (take (length b1 - s) b1)] \<and> take 1 r \<noteq> [c]"
      by (auto split: list.splits if_splits)
    with True show ?thesis by (intro exI[of _ "[]"]) simp
  next
    case False
    with Cons.prems have "rmatch [Rep (NoneOf [c]) 0 False, GClose, Lit c, NotAhead c] (y # b1) r [s] [] = Some (b', r', gs)"
      by simp
    from Cons.IH[OF this] obtain x where x: "c \<notin> set x" "r = x @ c # r'" "b' = c # rev x @ y # b1"
       "gs = [rev (take (length (rev x @ y # b1) - s) (rev x @ y # b1))]" "take 1 r' \<noteq> [c]" by blast
    with False show ?thesis by (intro exI[of _ "y # x"]) simp
  qed
qed


lemma italic_match:
  assumes "rmatch (italic_re c) b r [] [] = Some (b', r', gs)"
  shows "\<exists>x. x \<noteq> [] \<and> c \<notin> set x \<and> r = c # x @ c # r' \<and> gs = [x]
             \<and> take 1 b \<noteq> [c] \<and> take 1 r' \<noteq> [c]"
proof -
  from assms have nb: "take 1 b \<noteq> [c]"
    by (cases b) (auto simp: italic_re_def split: if_splits)
  from assms obtain r0 where r: "r = c # r0"
    by (cases r) (auto simp: italic_re_def split: if_splits list.splits)
  from assms r obtain y r1 where r0: "r0 = y # r1" and y: "y \<noteq> c"
    by (cases r0) (auto simp: italic_re_def split: if_splits list.splits)
  from assms r r0 y
  have "rmatch [Rep (NoneOf [c]) 0 False, GClose, Lit c, NotAhead c] (y # c # b) r1 [Suc (length b)] []
          = Some (b', r', gs)"
    by (auto simp: italic_re_def split: if_splits list.splits)
  from lazy_until[OF this] obtain x where
    x: "c \<notin> set x" "r1 = x @ c # r'"
       "gs = [rev (take (length (rev x @ y # c # b) - Suc (length b)) (rev x @ y # c # b))]"
       "take 1 r' \<noteq> [c]"
    by blast
  have "gs = [y # x]" using x(3) by simp
  with x r r0 y nb show ?thesis
    by (intro exI[of _ "y # x"]) simp
qed

text \<open>
  C6. The formatting pass is the seven substitutions in the order of the source: the two
  bold patterns, then the two italic patterns, then underline, superscript and subscript.
  On \<open>**a** *b*\<close> the bold pattern leaves \<open>\textbf{a} *b*\<close> and the pass returns a bold
  span for \<open>a\<close> and an italic span for \<open>b\<close>. The order is observable: \<open>**a***b*\<close> becomes
  a bold span and an italic span, where the italic pattern applied before the bold one
  would find no match and leave \<open>\textbf{a}*b*\<close>; and in \<open>*a **b** c*\<close> the outer asterisks
  match only once the bold pattern has removed the inner ones. Every match of the italic
  pattern for a delimiter \<open>c\<close> (an asterisk or an underscore) is \<open>c\<close>, a non-empty text
  without \<open>c\<close>, and \<open>c\<close>, where the character before the match and the character after
  it are not \<open>c\<close>: neither delimiter of the match is next to another one.
\<close>

theorem bold_before_italic:
  "re_sub (span_re ''**'' ''**'') (around1 (cmd ''textbf{'') (str ''}'')) (str ''**a** *b*'')
     = cmd ''textbf{a} *b*''
   \<and> convert_formatting (str ''**a** *b*'') = cmd ''textbf{a} '' @ cmd ''textit{b}''
   \<and> (rmatch (italic_re c) b r [] [] = Some (b', r', gs) \<longrightarrow>
        (\<exists>x. x \<noteq> [] \<and> c \<notin> set x \<and> r = c # x @ c # r' \<and> gs = [x]
             \<and> take 1 b \<noteq> [c] \<and> take 1 r' \<noteq> [c]))
   \<and> convert_formatting t =
       re_sub (span_re ''~'' ''~'') (around1 (cmd ''textsubscript{'') (str ''}''))
        (re_sub (span_re ''^'' ''^'') (around1 (cmd ''textsuperscript{'') (str ''}''))
          (re_sub (span_re ''<u>'' ''</u>'') (around1 (cmd ''underline{'') (str ''}''))
            (re_sub (italic_re 95) (around1 (cmd ''textit{'') (str ''}''))
              (re_sub (italic_re 42) (around1 (cmd ''textit{'') (str ''}''))
                (re_sub (span_re ''__'' ''__'') (around1 (cmd ''textbf{'') (str ''}''))
                  (re_sub (span_re ''**'' ''**'') (around1 (cmd ''textbf{'') (str ''}''))
                    t))))))
   \<and> convert_formatting (str ''**a***b*'') = cmd ''textbf{a}'' @ cmd ''textit{b}''
   \<and> re_sub (span_re ''**'' ''**'') (around1 (cmd ''textbf{'') (str ''}''))
         (re_sub (italic_re 42) (around1 (cmd ''textit{'') (str ''}'')) (str ''**a***b*''))
       = cmd ''textbf{a}*b*''
   \<and> convert_formatting (str ''*a **b** c*'') = cmd ''textit{a '' @ cmd ''textbf{b} c}''"
proof -
  have 1: "re_sub (span_re ''**'' ''**'') (around1 (cmd ''textbf{'') (str ''}'')) (str ''**a** *b*'')
     = cmd ''textbf{a} *b*''"
    by code_simp
  have 2: "convert_formatting (str ''**a** *b*'') = cmd ''textbf{a} '' @ cmd ''textit{b}''"
    by code_simp
  have 3: "rmatch (italic_re c) b r [] [] = Some (b', r', gs) \<longrightarrow>
        (\<exists>x. x \<noteq> [] \<and> c \<notin> set x \<and> r = c # x @ c # r' \<and> gs = [x]
             \<and> take 1 b \<noteq> [c] \<and> take 1 r' \<noteq> [c])"
    using italic_match by blast
  have 4: "convert_formatting t =
       re_sub (span_re ''~'' ''~'') (around1 (cmd ''textsubscript{'') (str ''}''))
        (re_sub (span_re ''^'' ''^'') (around1 (cmd ''textsuperscript{'') (str ''}''))
          (re_sub (span_re ''<u>'' ''</u>'') (around1 (cmd ''underline{'') (str ''}''))
            (re_sub (italic_re 95) (around1 (cmd ''textit{'') (str ''}''))
              (re_sub (italic_re 42) (around1 (cmd ''textit{'') (str ''}''))
                (re_sub (span_re ''__'' ''__'') (around1 (cmd ''textbf{'') (str ''}''))
                  (re_sub (span_re ''**'' ''**'') (around1 (cmd ''textbf{'') (str ''}''))
                    t))))))"
    by (simp add: convert_formatting_def Let_def)
  have 5: "convert_formatting (str ''**a***b*'') = cmd ''textbf{a}'' @ cmd ''textit{b}''"
    by code_simp
  have 6: "re_sub (span_re ''**'' ''**'') (around1 (cmd ''textbf{'') (str ''}''))
         (re_sub (italic_re 42) (around1 (cmd ''textit{'') (str ''}'')) (str ''**a***b*''))
       = cmd ''textbf{a}*b*''"
    by code_simp
  have 7: "convert_formatting (str ''*a **b** c*'') = cmd ''textit{a '' @ cmd ''textbf{b} c}''"
    by code_simp
  show ?thesis
    by (intro conjI) (rule 1, rule 2, rule 3, rule 4, rule 5, rule 6, rule 7)
qed

theorem bold_before_italic_witness:
  "rmatch (italic_re 42) (str '' }a{fbtxet'' @ [BS]) (str ''*b*'') [] []
     = Some (str ''*b*'' @ str '' }a{fbtxet'' @ [BS], [], [str ''b''])
   \<and> (\<exists>x. x \<noteq> [] \<and> 42 \<notin> set x \<and> str ''*b*'' = 42 # x @ [42])"
proof -
  have m: "rmatch (italic_re 42) (str '' }a{fbtxet'' @ [BS]) (str ''*b*'') [] []
     = Some (str ''*b*'' @ str '' }a{fbtxet'' @ [BS], [], [str ''b''])"
    by code_simp
  from bold_before_italic [of 42 "str '' }a{fbtxet'' @ [BS]" "str ''*b*''"
        "str ''*b*'' @ str '' }a{fbtxet'' @ [BS]" "[]" "[str ''b'']", THEN conjunct2,
        THEN conjunct2, THEN conjunct1, THEN mp, OF m] m
  show ?thesis by auto
qed

section \<open>Whitespace\<close>

text \<open>
  The tab expansion is aligned to columns of 4, and the substitution of the pattern of
  two or more spaces replaces exactly the maximal runs.
\<close>

lemma expandtabs_from_aligned: "tab_expanded col s (expandtabs_from 4 col s)"
proof (induction s arbitrary: col)
  case Nil
  show ?case by (simp add: tab_nil)
next
  case (Cons c cs)
  show ?case
  proof (cases "c = TAB")
    case True
    have k: "0 < 4 - col mod 4" "4 - col mod 4 \<le> 4" "4 dvd col + (4 - col mod 4)"
      by presburger+
    from tab_tab[OF k Cons.IH] True show ?thesis by simp
  next
    case False
    show ?thesis
    proof (cases "c = NL \<or> c = CR")
      case True
      from tab_line[OF True Cons.IH] False True show ?thesis by auto
    next
      case nl: False
      with False tab_char[OF _ _ _ Cons.IH, of c col] show ?thesis by auto
    qed
  qed
qed

lemma greedy_all:
  assumes "\<forall>y\<in>set w. in_cls k y"
    and "case r of [] \<Rightarrow> True | y # _ \<Rightarrow> \<not> in_cls k y"
    and "rmatch p (rev w @ b) r os gs = Some m"
  shows "rmatch (Rep k 0 True # p) b (w @ r) os gs = Some m"
  using assms
proof (induction w arbitrary: b)
  case Nil
  then show ?case by (cases r) auto
next
  case (Cons x w)
  from Cons.prems have "rmatch (Rep k 0 True # p) (x # b) (w @ r) os gs = Some m"
    by (intro Cons.IH) auto
  with Cons.prems show ?case by simp
qed

lemma drop_spaces_head:
  "case dropWhile (\<lambda>c. c = 32) s of [] \<Rightarrow> True | y # _ \<Rightarrow> \<not> in_cls (OneOf [32]) y"
  by (induction s) (auto split: list.splits)

lemma spaces_match:
  assumes "2 \<le> length (takeWhile (\<lambda>c. c = 32) s)"
  shows "rmatch spaces_re b s [] []
           = Some (rev (takeWhile (\<lambda>c. c = 32) s) @ b, dropWhile (\<lambda>c. c = 32) s, [])"
proof -
  from assms obtain s' where s: "s = 32 # 32 # s'"
    by (cases s; cases "tl s") (auto split: if_splits)
  have "rmatch [Rep (OneOf [32]) 0 True] (32 # 32 # b)
          (takeWhile (\<lambda>c. c = 32) s' @ dropWhile (\<lambda>c. c = 32) s') [] []
        = Some (rev (takeWhile (\<lambda>c. c = 32) s') @ 32 # 32 # b, dropWhile (\<lambda>c. c = 32) s', [])"
    by (rule greedy_all) (auto simp: drop_spaces_head dest: set_takeWhileD)
  then show ?thesis
    by (simp add: s spaces_re_def numeral_2_eq_2)
qed

lemma spaces_nomatch:
  assumes "length (takeWhile (\<lambda>c. c = 32) s) < 2"
  shows "rmatch spaces_re b s [] [] = None"
proof (cases s)
  case Nil
  then show ?thesis by (simp add: spaces_re_def numeral_2_eq_2)
next
  case (Cons x s')
  with assms show ?thesis
    by (cases s') (auto simp: spaces_re_def numeral_2_eq_2 split: if_splits)
qed

lemma re_sub_spaces: "re_sub_from spaces_re hspace b s = collapse_spaces s"
proof (induction s arbitrary: b rule: collapse_spaces.induct)
  case 1
  show ?case by simp
next
  case (2 x xs)
  show ?case
  proof (cases "2 \<le> length (takeWhile (\<lambda>c. c = 32) (x # xs))")
    case True
    then have x: "x = 32" by (auto split: if_splits)
    have len: "length (dropWhile (\<lambda>c. c = 32) xs) \<le> length xs"
      by (rule length_dropWhile_le)
    have m: "matched b (rev (takeWhile (\<lambda>c. c = 32) (x # xs)) @ b) = takeWhile (\<lambda>c. c = 32) (x # xs)"
      by (simp add: matched_def)
    from spaces_match[OF True, of b] x len m "2.IH"(1)[OF x] True
    show ?thesis by simp
  next
    case False
    then have n: "rmatch spaces_re b (x # xs) [] [] = None"
      by (intro spaces_nomatch) simp
    show ?thesis
    proof (cases "x = 32")
      case True
      with False have "takeWhile (\<lambda>c. c = 32) xs = []"
        by (cases "takeWhile (\<lambda>c. c = 32) xs") auto
      then have d: "dropWhile (\<lambda>c. c = 32) xs = xs"
        by (cases xs) (auto split: if_splits)
      from n True False d "2.IH"(1)[OF True, of "x # b"] show ?thesis by simp
    next
      case ne: False
      with n "2.IH"(2)[OF ne, of "x # b"] show ?thesis by simp
    qed
  qed
qed


text \<open>
  C8, as amended. The whitespace pass replaces every tab by the one to four spaces that
  reach the next column divisible by 4 (columns count from the last newline or carriage
  return), and then replaces every maximal run of two or more spaces by a space command
  whose size is the text Python prints for the double-precision product of the run
  length and 0.3: \<open>0.6\<close> for two spaces, \<open>0.8999999999999999\<close> for three, \<open>1.2\<close> for four.
\<close>

theorem preserve_whitespace_runs:
  "tab_expanded 0 s (expandtabs 4 s)
   \<and> preserve_whitespace s = collapse_spaces (expandtabs 4 s)
   \<and> hspace (str ''  '') [] = cmd ''hspace{0.6em}''
   \<and> hspace (str ''   '') [] = cmd ''hspace{0.8999999999999999em}''
   \<and> hspace (str ''    '') [] = cmd ''hspace{1.2em}''"
proof -
  have 1: "tab_expanded 0 s (expandtabs 4 s)"
    by (simp add: expandtabs_def expandtabs_from_aligned)
  have 2: "preserve_whitespace s = collapse_spaces (expandtabs 4 s)"
    by (simp add: preserve_whitespace_def re_sub_def re_sub_spaces)
  have 3: "hspace (str ''  '') [] = cmd ''hspace{0.6em}''"
    by code_simp
  have 4: "hspace (str ''   '') [] = cmd ''hspace{0.8999999999999999em}''"
    by code_simp
  have 5: "hspace (str ''    '') [] = cmd ''hspace{1.2em}''"
    by code_simp
  from 1 2 3 4 5 show ?thesis by blast
qed

theorem preserve_whitespace_runs_witness:
  "tab_expanded 0 (str ''a'' @ TAB # str ''b  c'') (str ''a   b  c'')
   \<and> collapse_spaces (str ''a   b  c'')
       = str ''a'' @ cmd ''hspace{0.8999999999999999em}b'' @ cmd ''hspace{0.6em}c''"
proof -
  have e: "expandtabs 4 (str ''a'' @ TAB # str ''b  c'') = str ''a   b  c''"
    by code_simp
  have p: "preserve_whitespace (str ''a'' @ TAB # str ''b  c'')
             = str ''a'' @ cmd ''hspace{0.8999999999999999em}b'' @ cmd ''hspace{0.6em}c''"
    by code_simp
  from preserve_whitespace_runs [of "str ''a'' @ TAB # str ''b  c''"]
  have "tab_expanded 0 (str ''a'' @ TAB # str ''b  c'') (expandtabs 4 (str ''a'' @ TAB # str ''b  c''))"
    and "preserve_whitespace (str ''a'' @ TAB # str ''b  c'')
           = collapse_spaces (expandtabs 4 (str ''a'' @ TAB # str ''b  c''))"
    by blast+
  then show ?thesis unfolding e p by simp
qed

text \<open>
  C8 as stated fails: for a run of three spaces the size is not the decimal \<open>0.9\<close> of
  0.3 times 3, since the product is rounded to a double and printed in full.
\<close>

theorem hspace_size_not_three_tenths:
  "tenths_size 3 = str ''0.9''
   \<and> preserve_whitespace (str ''a   b'') = str ''a'' @ cmd ''hspace{0.8999999999999999em}b''
   \<and> preserve_whitespace (str ''a   b'') \<noteq> str ''a'' @ cmd ''hspace{'' @ tenths_size 3 @ str ''em}b''"
  by code_simp


section \<open>Bullet lines\<close>














end
